theory Spec2Isabelle
  imports Main "HOL-Library.Monad_Syntax" "HOL-Library.Tree"
begin

section \<open>The red-black tree of redblack.c over an explicit node store\<close>

text \<open>
  The C code works on nodes linked by three pointers, shares one static sentinel node
  between all trees and keeps freed nodes on a process-wide free list. The model keeps
  the pointer graph as it is: a store maps node addresses to node records, every field
  access of the source is a read or a write of the store, and a read or write through an
  address that holds no node (the C null pointer, a never allocated address) has no
  result. Loops and recursions over the store take fuel; \<open>None\<close> stands for a call that
  does not return normally (it aborts on a failed \<open>invariant\<close>, dereferences a dangling
  address, or runs forever).
\<close>

subsection \<open>Types\<close>

type_synonym pointer = nat
  \<comment> \<open>an untyped C pointer handed in by the caller (keys, values, user data)\<close>
type_synonym addr = nat
  \<comment> \<open>the address of a node\<close>

definition null :: nat where
  "null = 0"

datatype RBTreeNodeColor = BLACK | RED

record RBTreeNode =
  left :: addr
  right :: addr
  parent :: addr
  color :: RBTreeNodeColor
  key :: pointer
  val :: pointer

text \<open>The static sentinel \<open>s_null_node\<close> lives at a fixed address different from null.\<close>

definition rb_null :: addr where
  "rb_null = 1"

definition s_null_node :: RBTreeNode where
  "s_null_node = \<lparr>left = rb_null, right = rb_null, parent = rb_null, color = BLACK,
                  key = null, val = null\<rparr>"

text \<open>
  The tree handle. A release callback is a C function pointer that is either null or
  set; the model records whether it is set, and each call of a callback is recorded as an
  event of the trace of the world.
\<close>

record RBTree =
  key_compare :: "pointer \<Rightarrow> pointer \<Rightarrow> pointer \<Rightarrow> int"
  key_compare_data :: pointer
  key_release :: bool
  value_release :: bool
  root :: addr

datatype event = KeyRelease pointer | ValueRelease pointer

type_synonym heap = "addr \<rightharpoonup> RBTreeNode"

record world =
  heap :: heap
  node_free_list :: addr
  brk :: addr  \<comment> \<open>the next address \<open>new_struct\<close> hands out\<close>
  trace :: "event list"

definition world0 :: world where
  "world0 = \<lparr>heap = [rb_null \<mapsto> s_null_node], node_free_list = null, brk = 2, trace = []\<rparr>"

subsection \<open>Reading and writing the store\<close>

definition rd :: "heap \<Rightarrow> addr \<Rightarrow> (RBTreeNode \<Rightarrow> 'a) \<Rightarrow> 'a option" where
  "rd h a f = map_option f (h a)"

definition wr :: "heap \<Rightarrow> addr \<Rightarrow> (RBTreeNode \<Rightarrow> RBTreeNode) \<Rightarrow> heap option" where
  "wr h a g = (case h a of None \<Rightarrow> None | Some n \<Rightarrow> Some (h(a \<mapsto> g n)))"

text \<open>\<open>follow h x [parent, left]\<close> is the address \<open>x->parent->left\<close>.\<close>

fun follow :: "heap \<Rightarrow> addr \<Rightarrow> (RBTreeNode \<Rightarrow> addr) list \<Rightarrow> addr option" where
  "follow h a [] = Some a"
| "follow h a (f # fs) = (case h a of None \<Rightarrow> None | Some n \<Rightarrow> follow h (f n) fs)"

definition color_at :: "heap \<Rightarrow> addr \<Rightarrow> (RBTreeNode \<Rightarrow> addr) list \<Rightarrow> RBTreeNodeColor option" where
  "color_at h a fs = do { b \<leftarrow> follow h a fs; rd h b color }"

definition set_color :: "heap \<Rightarrow> addr \<Rightarrow> (RBTreeNode \<Rightarrow> addr) list \<Rightarrow> RBTreeNodeColor \<Rightarrow> heap option" where
  "set_color h a fs c = do { b \<leftarrow> follow h a fs; wr h b (\<lambda>n. n\<lparr>color := c\<rparr>) }"

text \<open>
  A release callback is called only when it is set; its argument is read from the store
  at the call.
\<close>

definition call_release :: "bool \<Rightarrow> (pointer \<Rightarrow> event) \<Rightarrow> pointer option \<Rightarrow> world \<Rightarrow> world option" where
  "call_release configured ev arg w =
     (if configured
      then (case arg of None \<Rightarrow> None | Some p \<Rightarrow> Some (w\<lparr>trace := trace w @ [ev p]\<rparr>))
      else Some w)"

subsection \<open>Allocation and teardown\<close>

definition rb_tree_node_new ::
  "world \<Rightarrow> pointer \<Rightarrow> pointer \<Rightarrow> addr \<Rightarrow> RBTreeNodeColor \<Rightarrow> (world \<times> addr) option" where
  "rb_tree_node_new w k v p c =
     (let fresh = \<lparr>left = rb_null, right = rb_null, parent = p, color = c, key = k, val = v\<rparr>
      in if node_free_list w \<noteq> null then
           do {
             let node = node_free_list w;
             nxt \<leftarrow> rd (heap w) node left;
             Some (w\<lparr>heap := (heap w)(node \<mapsto> fresh), node_free_list := nxt\<rparr>, node)
           }
         else
           Some (w\<lparr>heap := (heap w)(brk w \<mapsto> fresh), brk := Suc (brk w)\<rparr>, brk w))"

fun rb_tree_node_release :: "nat \<Rightarrow> world \<Rightarrow> addr \<Rightarrow> bool \<Rightarrow> bool \<Rightarrow> world option" where
  "rb_tree_node_release 0 w node kr vr = None"
| "rb_tree_node_release (Suc n) w node kr vr =
     (if node = rb_null then Some w
      else do {
        r \<leftarrow> rd (heap w) node right;
        w \<leftarrow> rb_tree_node_release n w r kr vr;
        l \<leftarrow> rd (heap w) node left;
        w \<leftarrow> rb_tree_node_release n w l kr vr;
        w \<leftarrow> call_release kr KeyRelease (rd (heap w) node key) w;
        w \<leftarrow> call_release vr ValueRelease (rd (heap w) node key) w;
        h \<leftarrow> wr (heap w) node (\<lambda>m. m\<lparr>left := node_free_list w\<rparr>);
        Some (w\<lparr>heap := h, node_free_list := node\<rparr>)
      })"

definition rb_tree_new_full :: "(pointer \<Rightarrow> pointer \<Rightarrow> pointer \<Rightarrow> int) \<Rightarrow> pointer \<Rightarrow> bool \<Rightarrow> bool \<Rightarrow> RBTree" where
  "rb_tree_new_full cmp cmp_data kr vr =
     \<lparr>key_compare = cmp, key_compare_data = cmp_data, key_release = kr, value_release = vr,
      root = rb_null\<rparr>"

definition rb_tree_new :: "(pointer \<Rightarrow> pointer \<Rightarrow> int) \<Rightarrow> RBTree" where
  "rb_tree_new cmp = rb_tree_new_full (\<lambda>a b d. cmp a b) null False False"

definition rb_tree_new_with_data :: "(pointer \<Rightarrow> pointer \<Rightarrow> pointer \<Rightarrow> int) \<Rightarrow> pointer \<Rightarrow> RBTree" where
  "rb_tree_new_with_data cmp cmp_data = rb_tree_new_full cmp cmp_data False False"

definition rb_tree_release :: "nat \<Rightarrow> RBTree \<Rightarrow> world \<Rightarrow> world option" where
  "rb_tree_release n t w = rb_tree_node_release n w (root t) (key_release t) (value_release t)"

subsection \<open>Rotations\<close>

definition rb_tree_rotate_left :: "RBTree \<Rightarrow> heap \<Rightarrow> addr \<Rightarrow> (RBTree \<times> heap) option" where
  "rb_tree_rotate_left t h x =
     (if x = rb_null then None
      else do {
        xr \<leftarrow> rd h x right;
        if xr = rb_null then None
        else do {
          let y = xr;
          yl \<leftarrow> rd h y left;
          h \<leftarrow> wr h x (\<lambda>n. n\<lparr>right := yl\<rparr>);
          yl \<leftarrow> rd h y left;
          h \<leftarrow> (if yl \<noteq> rb_null then wr h yl (\<lambda>n. n\<lparr>parent := x\<rparr>) else Some h);
          xp \<leftarrow> rd h x parent;
          h \<leftarrow> wr h y (\<lambda>n. n\<lparr>parent := xp\<rparr>);
          xp \<leftarrow> rd h x parent;
          (t, h) \<leftarrow>
            (if xp = rb_null then Some (t\<lparr>root := y\<rparr>, h)
             else do {
               xpl \<leftarrow> rd h xp left;
               h \<leftarrow> (if x = xpl then wr h xp (\<lambda>n. n\<lparr>left := y\<rparr>)
                      else wr h xp (\<lambda>n. n\<lparr>right := y\<rparr>));
               Some (t, h)
             });
          h \<leftarrow> wr h y (\<lambda>n. n\<lparr>left := x\<rparr>);
          h \<leftarrow> wr h x (\<lambda>n. n\<lparr>parent := y\<rparr>);
          Some (t, h)
        }
      })"

text \<open>
  \<open>rb_tree_rotate_right\<close> as the source has it: the left child of \<open>y\<close> becomes
  \<open>y->right\<close>, and the parent written under the test on \<open>x->right\<close> is that of
  \<open>y->right\<close>.
\<close>

definition rb_tree_rotate_right :: "RBTree \<Rightarrow> heap \<Rightarrow> addr \<Rightarrow> (RBTree \<times> heap) option" where
  "rb_tree_rotate_right t h y =
     (if y = rb_null then None
      else do {
        yl \<leftarrow> rd h y left;
        if yl = rb_null then None
        else do {
          let x = yl;
          yr \<leftarrow> rd h y right;
          h \<leftarrow> wr h y (\<lambda>n. n\<lparr>left := yr\<rparr>);
          xr \<leftarrow> rd h x right;
          h \<leftarrow> (if xr \<noteq> rb_null
                 then do { yr \<leftarrow> rd h y right; wr h yr (\<lambda>n. n\<lparr>parent := y\<rparr>) }
                 else Some h);
          yp \<leftarrow> rd h y parent;
          h \<leftarrow> wr h x (\<lambda>n. n\<lparr>parent := yp\<rparr>);
          yp \<leftarrow> rd h y parent;
          (t, h) \<leftarrow>
            (if yp = rb_null then Some (t\<lparr>root := x\<rparr>, h)
             else do {
               ypl \<leftarrow> rd h yp left;
               h \<leftarrow> (if y = ypl then wr h yp (\<lambda>n. n\<lparr>left := x\<rparr>)
                      else wr h yp (\<lambda>n. n\<lparr>right := x\<rparr>));
               Some (t, h)
             });
          h \<leftarrow> wr h x (\<lambda>n. n\<lparr>right := y\<rparr>);
          h \<leftarrow> wr h y (\<lambda>n. n\<lparr>parent := x\<rparr>);
          Some (t, h)
        }
      })"

subsection \<open>Find, insert and replace\<close>

text \<open>The descent of \<open>rb_tree_find\<close>: one unit of fuel for each test of the loop condition.\<close>

fun find_descend ::
  "nat \<Rightarrow> RBTree \<Rightarrow> heap \<Rightarrow> pointer \<Rightarrow> addr \<Rightarrow> addr \<Rightarrow> bool \<Rightarrow> (addr \<times> addr \<times> bool) option" where
  "find_descend 0 t h k iters_parent iter found = None"
| "find_descend (Suc n) t h k iters_parent iter found =
     (if iter = rb_null \<or> found then Some (iters_parent, iter, found)
      else do {
        ik \<leftarrow> rd h iter key;
        let cmp = key_compare t k ik (key_compare_data t);
        if cmp < 0 then do { l \<leftarrow> rd h iter left; find_descend n t h k iter l found }
        else if cmp = 0 then find_descend n t h k iter iter True
        else do { r \<leftarrow> rd h iter right; find_descend n t h k iter r found }
      })"

text \<open>The rebalancing loop that follows the attachment of a new red node.\<close>

fun find_restore :: "nat \<Rightarrow> RBTree \<Rightarrow> heap \<Rightarrow> addr \<Rightarrow> (RBTree \<times> heap) option" where
  "find_restore 0 t h iter = None"
| "find_restore (Suc n) t h iter =
     (if iter = root t then Some (t, h)
      else do {
        pc \<leftarrow> color_at h iter [parent];
        if pc \<noteq> RED then Some (t, h)
        else do {
          p \<leftarrow> follow h iter [parent];
          gl \<leftarrow> follow h iter [parent, parent, left];
          if p = gl then do {
            iters_parent \<leftarrow> follow h iter [parent, parent, right];
            uc \<leftarrow> rd h iters_parent color;
            if uc = RED then do {
              h \<leftarrow> set_color h iter [parent] BLACK;
              h \<leftarrow> set_color h iters_parent [] BLACK;
              h \<leftarrow> set_color h iter [parent, parent] RED;
              iter \<leftarrow> follow h iter [parent, parent];
              find_restore n t h iter
            } else do {
              pr \<leftarrow> follow h iter [parent, right];
              (t, h, iter) \<leftarrow>
                (if iter = pr then do {
                   iter \<leftarrow> follow h iter [parent];
                   (t, h) \<leftarrow> rb_tree_rotate_left t h iter;
                   Some (t, h, iter)
                 } else Some (t, h, iter));
              h \<leftarrow> set_color h iter [parent] BLACK;
              h \<leftarrow> set_color h iter [parent, parent] RED;
              g \<leftarrow> follow h iter [parent, parent];
              (t, h) \<leftarrow> rb_tree_rotate_right t h g;
              find_restore n t h iter
            }
          } else do {
            iters_parent \<leftarrow> follow h iter [parent, parent, left];
            uc \<leftarrow> rd h iters_parent color;
            if uc = RED then do {
              h \<leftarrow> set_color h iter [parent] BLACK;
              h \<leftarrow> set_color h iters_parent [] BLACK;
              h \<leftarrow> set_color h iter [parent, parent] RED;
              iter \<leftarrow> follow h iter [parent, parent];
              find_restore n t h iter
            } else do {
              pl \<leftarrow> follow h iter [parent, left];
              (t, h, iter) \<leftarrow>
                (if iter = pl then do {
                   iter \<leftarrow> follow h iter [parent];
                   (t, h) \<leftarrow> rb_tree_rotate_right t h iter;
                   Some (t, h, iter)
                 } else Some (t, h, iter));
              h \<leftarrow> set_color h iter [parent] BLACK;
              h \<leftarrow> set_color h iter [parent, parent] RED;
              g \<leftarrow> follow h iter [parent, parent];
              (t, h) \<leftarrow> rb_tree_rotate_left t h g;
              find_restore n t h iter
            }
          }
        }
      })"

definition rb_tree_find ::
  "nat \<Rightarrow> RBTree \<Rightarrow> world \<Rightarrow> pointer \<Rightarrow> pointer \<Rightarrow> bool \<Rightarrow> bool \<Rightarrow> (RBTree \<times> world \<times> addr) option" where
  "rb_tree_find n t w k v ins rep =
     (if rep \<and> \<not> ins then None
      else do {
        (iters_parent, iter, found) \<leftarrow> find_descend n t (heap w) k rb_null (root t) False;
        if found \<and> ins \<and> rep then do {
          w \<leftarrow> call_release (key_release t) KeyRelease (rd (heap w) iter key) w;
          w \<leftarrow> call_release (value_release t) ValueRelease (rd (heap w) iter val) w;
          h \<leftarrow> wr (heap w) iter (\<lambda>m. m\<lparr>key := k\<rparr>);
          h \<leftarrow> wr h iter (\<lambda>m. m\<lparr>val := v\<rparr>);
          Some (t, w\<lparr>heap := h\<rparr>, iter)
        } else if found \<and> ins then do {
          w \<leftarrow> call_release (key_release t) KeyRelease (Some k) w;
          w \<leftarrow> call_release (value_release t) ValueRelease (rd (heap w) iter val) w;
          h \<leftarrow> wr (heap w) iter (\<lambda>m. m\<lparr>val := v\<rparr>);
          Some (t, w\<lparr>heap := h\<rparr>, iter)
        } else if found \<or> \<not> ins then Some (t, w, iter)
        else do {
          (w, new_node) \<leftarrow> rb_tree_node_new w k v iters_parent RED;
          (t, h) \<leftarrow>
            (if iters_parent = rb_null then Some (t\<lparr>root := new_node\<rparr>, heap w)
             else do {
               nk \<leftarrow> rd (heap w) new_node key;
               pk \<leftarrow> rd (heap w) iters_parent key;
               let cmp = key_compare t nk pk (key_compare_data t);
               h \<leftarrow> (if cmp < 0 then wr (heap w) iters_parent (\<lambda>m. m\<lparr>left := new_node\<rparr>)
                      else wr (heap w) iters_parent (\<lambda>m. m\<lparr>right := new_node\<rparr>));
               Some (t, h)
             });
          (t, h) \<leftarrow> find_restore n t h new_node;
          h \<leftarrow> wr h (root t) (\<lambda>m. m\<lparr>color := BLACK\<rparr>);
          Some (t, w\<lparr>heap := h\<rparr>, new_node)
        }
      })"

definition rb_tree_insert :: "nat \<Rightarrow> RBTree \<Rightarrow> world \<Rightarrow> pointer \<Rightarrow> pointer \<Rightarrow> (RBTree \<times> world) option" where
  "rb_tree_insert n t w k v = map_option (\<lambda>(t, w, node). (t, w)) (rb_tree_find n t w k v True False)"

definition rb_tree_replace :: "nat \<Rightarrow> RBTree \<Rightarrow> world \<Rightarrow> pointer \<Rightarrow> pointer \<Rightarrow> (RBTree \<times> world) option" where
  "rb_tree_replace n t w k v = map_option (\<lambda>(t, w, node). (t, w)) (rb_tree_find n t w k v True True)"

subsection \<open>Queries\<close>

text \<open>
  The counters are C \<open>int\<close>s; they are modelled as unbounded integers, which agrees with
  the source as long as the count stays below \<open>2^31\<close>.
\<close>

fun rb_tree_node_count :: "nat \<Rightarrow> heap \<Rightarrow> addr \<Rightarrow> int option" where
  "rb_tree_node_count 0 h node = None"
| "rb_tree_node_count (Suc n) h node =
     do {
       l \<leftarrow> rd h node left;
       cl \<leftarrow> (if l \<noteq> rb_null then rb_tree_node_count n h l else Some 0);
       r \<leftarrow> rd h node right;
       cr \<leftarrow> (if r \<noteq> rb_null then rb_tree_node_count n h r else Some 0);
       Some (1 + cl + cr)
     }"

definition rb_tree_size :: "nat \<Rightarrow> RBTree \<Rightarrow> world \<Rightarrow> int option" where
  "rb_tree_size n t w = (if root t \<noteq> rb_null then rb_tree_node_count n (heap w) (root t) else Some 0)"

fun rb_tree_node_height :: "nat \<Rightarrow> heap \<Rightarrow> addr \<Rightarrow> int option" where
  "rb_tree_node_height 0 h node = None"
| "rb_tree_node_height (Suc n) h node =
     (if node \<noteq> rb_null then do {
        l \<leftarrow> rd h node left;
        left_height \<leftarrow> (if l \<noteq> rb_null then rb_tree_node_height n h l else Some 0);
        r \<leftarrow> rd h node right;
        right_height \<leftarrow> (if r \<noteq> rb_null then rb_tree_node_height n h r else Some 0);
        Some (max left_height right_height + 1)
      } else Some 0)"

definition rb_tree_height :: "nat \<Rightarrow> RBTree \<Rightarrow> world \<Rightarrow> int option" where
  "rb_tree_height n t w = (if root t \<noteq> rb_null then rb_tree_node_height n (heap w) (root t) else Some 0)"

definition rb_tree_lookup :: "nat \<Rightarrow> RBTree \<Rightarrow> world \<Rightarrow> pointer \<Rightarrow> (RBTree \<times> world \<times> pointer) option" where
  "rb_tree_lookup n t w k =
     do {
       (t, w, node) \<leftarrow> rb_tree_find n t w k null False False;
       if node \<noteq> rb_null then do { v \<leftarrow> rd (heap w) node val; Some (t, w, v) }
       else Some (t, w, null)
     }"

text \<open>
  An out-parameter is a pointer to a cell of the caller: \<open>None\<close> is the null pointer,
  \<open>Some c\<close> a cell that holds \<open>c\<close>. The result carries the cells after the call. A write
  through a null out-parameter has no result.
\<close>

definition rb_tree_lookup_extended ::
  "nat \<Rightarrow> RBTree \<Rightarrow> world \<Rightarrow> pointer \<Rightarrow> pointer option \<Rightarrow> pointer option
     \<Rightarrow> (RBTree \<times> world \<times> bool \<times> pointer option \<times> pointer option) option" where
  "rb_tree_lookup_extended n t w k orig_key value_out =
     do {
       (t, w, node) \<leftarrow> rb_tree_find n t w k null False False;
       if node \<noteq> rb_null then do {
         orig_key' \<leftarrow> (if orig_key \<noteq> None then map_option Some (rd (heap w) node key)
                       else Some orig_key);
         value_out' \<leftarrow> (if orig_key \<noteq> None
                        then (if value_out = None then None
                              else map_option Some (rd (heap w) node val))
                        else Some value_out);
         Some (t, w, True, orig_key', value_out')
       } else Some (t, w, False, orig_key, value_out)
     }"

subsection \<open>Traversal\<close>

text \<open>
  The visitor gets key, value and the closure, may change what the closure points to, and
  answers whether the walk goes on. It has no access to the nodes.
\<close>

type_synonym 'c MappingMapFunc = "pointer \<Rightarrow> pointer \<Rightarrow> 'c \<Rightarrow> bool \<times> 'c"

fun rb_tree_node_map :: "nat \<Rightarrow> heap \<Rightarrow> addr \<Rightarrow> 'c MappingMapFunc \<Rightarrow> 'c \<Rightarrow> (bool \<times> 'c) option" where
  "rb_tree_node_map 0 h node lambda closure = None"
| "rb_tree_node_map (Suc n) h node lambda closure =
     do {
       l \<leftarrow> rd h node left;
       (go, closure) \<leftarrow> (if l \<noteq> rb_null then rb_tree_node_map n h l lambda closure
                         else Some (True, closure));
       if \<not> go then Some (False, closure)
       else do {
         k \<leftarrow> rd h node key;
         v \<leftarrow> rd h node val;
         let (go, closure) = lambda k v closure;
         if \<not> go then Some (False, closure)
         else do {
           r \<leftarrow> rd h node right;
           (go, closure) \<leftarrow> (if r \<noteq> rb_null then rb_tree_node_map n h r lambda closure
                             else Some (True, closure));
           if \<not> go then Some (False, closure) else Some (True, closure)
         }
       }
     }"

definition rb_tree_map :: "nat \<Rightarrow> RBTree \<Rightarrow> world \<Rightarrow> 'c MappingMapFunc \<Rightarrow> 'c \<Rightarrow> 'c option" where
  "rb_tree_map n t w func closure =
     (if root t \<noteq> rb_null then map_option snd (rb_tree_node_map n (heap w) (root t) func closure)
      else Some closure)"

subsection \<open>Removal\<close>

fun successor_down :: "nat \<Rightarrow> heap \<Rightarrow> addr \<Rightarrow> addr option" where
  "successor_down 0 h iter = None"
| "successor_down (Suc n) h iter =
     do {
       l \<leftarrow> rd h iter left;
       if l = rb_null then Some iter else successor_down n h l
     }"

fun successor_up :: "nat \<Rightarrow> heap \<Rightarrow> addr \<Rightarrow> addr \<Rightarrow> addr option" where
  "successor_up 0 h node iter = None"
| "successor_up (Suc n) h node iter =
     (if iter = rb_null then Some iter
      else do {
        r \<leftarrow> rd h iter right;
        if node \<noteq> r then Some iter
        else do { p \<leftarrow> rd h iter parent; successor_up n h iter p }
      })"

definition rb_tree_node_successor :: "nat \<Rightarrow> heap \<Rightarrow> addr \<Rightarrow> addr option" where
  "rb_tree_node_successor n h node =
     do {
       r \<leftarrow> rd h node right;
       if r \<noteq> rb_null then successor_down n h r
       else do { p \<leftarrow> rd h node parent; successor_up n h node p }
     }"

text \<open>The loop of \<open>rb_tree_node_remove_restore\<close>; the caller colours the node it ends on.\<close>

fun remove_restore_loop :: "nat \<Rightarrow> RBTree \<Rightarrow> heap \<Rightarrow> addr \<Rightarrow> (RBTree \<times> heap \<times> addr) option" where
  "remove_restore_loop 0 t h x = None"
| "remove_restore_loop (Suc n) t h x =
     (if x = root t then Some (t, h, x)
      else do {
        xc \<leftarrow> rd h x color;
        if xc \<noteq> BLACK then Some (t, h, x)
        else do {
          xpl \<leftarrow> follow h x [parent, left];
          if x = xpl then do {
            w \<leftarrow> follow h x [parent, right];
            wc \<leftarrow> rd h w color;
            (t, h, w) \<leftarrow>
              (if wc = RED then do {
                 h \<leftarrow> set_color h w [] BLACK;
                 h \<leftarrow> set_color h x [parent] RED;
                 xp \<leftarrow> follow h x [parent];
                 (t, h) \<leftarrow> rb_tree_rotate_left t h xp;
                 w \<leftarrow> follow h x [parent, right];
                 Some (t, h, w)
               } else Some (t, h, w));
            wlc \<leftarrow> color_at h w [left];
            both_black \<leftarrow>
              (if wlc = BLACK then map_option (\<lambda>c. c = BLACK) (color_at h w [right])
               else Some False);
            if both_black then do {
              h \<leftarrow> set_color h w [] RED;
              x \<leftarrow> follow h x [parent];
              remove_restore_loop n t h x
            } else do {
              wrc \<leftarrow> color_at h w [right];
              (t, h, w) \<leftarrow>
                (if wrc = BLACK then do {
                   h \<leftarrow> set_color h w [left] BLACK;
                   h \<leftarrow> set_color h w [] RED;
                   (t, h) \<leftarrow> rb_tree_rotate_right t h w;
                   w \<leftarrow> follow h x [parent, right];
                   Some (t, h, w)
                 } else Some (t, h, w));
              xpc \<leftarrow> color_at h x [parent];
              h \<leftarrow> set_color h w [] xpc;
              h \<leftarrow> set_color h x [parent] BLACK;
              h \<leftarrow> set_color h w [right] BLACK;
              xp \<leftarrow> follow h x [parent];
              (t, h) \<leftarrow> rb_tree_rotate_left t h xp;
              remove_restore_loop n t h (root t)
            }
          } else do {
            w \<leftarrow> follow h x [parent, left];
            wc \<leftarrow> rd h w color;
            (t, h, w) \<leftarrow>
              (if wc = RED then do {
                 h \<leftarrow> set_color h w [] BLACK;
                 h \<leftarrow> set_color h x [parent] RED;
                 xp \<leftarrow> follow h x [parent];
                 (t, h) \<leftarrow> rb_tree_rotate_right t h xp;
                 w \<leftarrow> follow h x [parent, left];
                 Some (t, h, w)
               } else Some (t, h, w));
            wrc \<leftarrow> color_at h w [right];
            both_black \<leftarrow>
              (if wrc = BLACK then map_option (\<lambda>c. c = BLACK) (color_at h w [left])
               else Some False);
            if both_black then do {
              h \<leftarrow> set_color h w [] RED;
              x \<leftarrow> follow h x [parent];
              remove_restore_loop n t h x
            } else do {
              wlc \<leftarrow> color_at h w [left];
              (t, h, w) \<leftarrow>
                (if wlc = BLACK then do {
                   h \<leftarrow> set_color h w [right] BLACK;
                   h \<leftarrow> set_color h w [] RED;
                   (t, h) \<leftarrow> rb_tree_rotate_left t h w;
                   w \<leftarrow> follow h x [parent, left];
                   Some (t, h, w)
                 } else Some (t, h, w));
              xpc \<leftarrow> color_at h x [parent];
              h \<leftarrow> set_color h w [] xpc;
              h \<leftarrow> set_color h x [parent] BLACK;
              h \<leftarrow> set_color h w [left] BLACK;
              xp \<leftarrow> follow h x [parent];
              (t, h) \<leftarrow> rb_tree_rotate_right t h xp;
              remove_restore_loop n t h (root t)
            }
          }
        }
      })"

definition rb_tree_node_remove_restore :: "nat \<Rightarrow> RBTree \<Rightarrow> heap \<Rightarrow> addr \<Rightarrow> (RBTree \<times> heap) option" where
  "rb_tree_node_remove_restore n t h x =
     do {
       (t, h, x) \<leftarrow> remove_restore_loop n t h x;
       h \<leftarrow> set_color h x [] BLACK;
       Some (t, h)
     }"

text \<open>
  \<open>victim\<close> is the choice of \<open>y\<close> at the head of \<open>rb_tree_node_remove\<close>; the test on
  \<open>z->right\<close> is only made when \<open>z->left\<close> is not the sentinel.
\<close>

definition victim :: "nat \<Rightarrow> heap \<Rightarrow> addr \<Rightarrow> addr option" where
  "victim n h z =
     do {
       zl \<leftarrow> rd h z left;
       if zl = rb_null then Some z
       else do {
         zr \<leftarrow> rd h z right;
         if zr = rb_null then Some z else rb_tree_node_successor n h z
       }
     }"

definition rb_tree_node_remove :: "nat \<Rightarrow> RBTree \<Rightarrow> world \<Rightarrow> addr \<Rightarrow> bool \<Rightarrow> (RBTree \<times> world) option" where
  "rb_tree_node_remove n t w z notify =
     do {
       let h = heap w;
       y \<leftarrow> victim n h z;
       yl \<leftarrow> rd h y left;
       x \<leftarrow> (if yl \<noteq> rb_null then rd h y left else rd h y right);
       yp \<leftarrow> rd h y parent;
       h \<leftarrow> wr h x (\<lambda>m. m\<lparr>parent := yp\<rparr>);
       yp \<leftarrow> rd h y parent;
       (t, h) \<leftarrow>
         (if yp = rb_null then Some (t\<lparr>root := x\<rparr>, h)
          else do {
            ypl \<leftarrow> rd h yp left;
            h \<leftarrow> (if y = ypl then wr h yp (\<lambda>m. m\<lparr>left := x\<rparr>)
                   else wr h yp (\<lambda>m. m\<lparr>right := x\<rparr>));
            Some (t, h)
          });
       h \<leftarrow> (if y \<noteq> z then do { yk \<leftarrow> rd h y key; wr h z (\<lambda>m. m\<lparr>key := yk\<rparr>) }
              else Some h);
       yc \<leftarrow> rd h y color;
       (t, h) \<leftarrow> (if yc = BLACK then rb_tree_node_remove_restore n t h x else Some (t, h));
       let w = w\<lparr>heap := h\<rparr>;
       w \<leftarrow> (if notify then do {
                w \<leftarrow> call_release (key_release t) KeyRelease (rd (heap w) y key) w;
                call_release (value_release t) ValueRelease (rd (heap w) y val) w
              } else Some w);
       h \<leftarrow> wr (heap w) y (\<lambda>m. m\<lparr>left := node_free_list w\<rparr>);
       Some (t, w\<lparr>heap := h, node_free_list := y\<rparr>)
     }"

definition rb_tree_remove :: "nat \<Rightarrow> RBTree \<Rightarrow> world \<Rightarrow> pointer \<Rightarrow> (RBTree \<times> world) option" where
  "rb_tree_remove n t w k =
     do {
       (t, w, node) \<leftarrow> rb_tree_find n t w k null False False;
       if node \<noteq> rb_null then rb_tree_node_remove n t w node True else Some (t, w)
     }"

definition rb_tree_steal :: "nat \<Rightarrow> RBTree \<Rightarrow> world \<Rightarrow> pointer \<Rightarrow> (RBTree \<times> world) option" where
  "rb_tree_steal n t w k =
     do {
       (t, w, node) \<leftarrow> rb_tree_find n t w k null False False;
       if node \<noteq> rb_null then rb_tree_node_remove n t w node False else Some (t, w)
     }"

subsection \<open>Sequences of public mutations\<close>

datatype op = Insert pointer pointer | Replace pointer pointer | Remove pointer | Steal pointer

fun apply_op :: "nat \<Rightarrow> op \<Rightarrow> RBTree \<times> world \<Rightarrow> (RBTree \<times> world) option" where
  "apply_op n (Insert k v) (t, w) = rb_tree_insert n t w k v"
| "apply_op n (Replace k v) (t, w) = rb_tree_replace n t w k v"
| "apply_op n (Remove k) (t, w) = rb_tree_remove n t w k"
| "apply_op n (Steal k) (t, w) = rb_tree_steal n t w k"

fun run :: "nat \<Rightarrow> op list \<Rightarrow> RBTree \<times> world \<Rightarrow> (RBTree \<times> world) option" where
  "run n [] s = Some s"
| "run n (x # xs) s = (case apply_op n x s of None \<Rightarrow> None | Some s' \<Rightarrow> run n xs s')"

text \<open>A comparator in the manner of \<open>strcmp\<close> on keys that are numbers.\<close>

definition compare_nat :: "pointer \<Rightarrow> pointer \<Rightarrow> pointer \<Rightarrow> int" where
  "compare_nat a b d = int a - int b"

subsection \<open>Abstraction of the store\<close>

text \<open>
  \<open>tree_at h a s\<close>: the nodes reachable from address \<open>a\<close> over the left and right
  pointers form the binary tree \<open>s\<close> of (key, value) pairs, with the sentinel at every
  leaf edge.
\<close>

fun tree_at :: "heap \<Rightarrow> addr \<Rightarrow> (pointer \<times> pointer) tree \<Rightarrow> bool" where
  "tree_at h a Leaf = (a = rb_null)"
| "tree_at h a (Node l kv r) =
     (a \<noteq> rb_null \<and>
      (case h a of None \<Rightarrow> False
       | Some n \<Rightarrow> kv = (key n, val n) \<and> tree_at h (left n) l \<and> tree_at h (right n) r))"

text \<open>
  The walk the specification describes, on the list of pairs in in-order: the visitor is
  called on the pairs from left to right, each call gets the closure the call before left
  behind, and the walk ends with the first call that answers stop.
\<close>

fun walk :: "'c MappingMapFunc \<Rightarrow> (pointer \<times> pointer) list \<Rightarrow> 'c \<Rightarrow> bool \<times> 'c" where
  "walk f [] c = (True, c)"
| "walk f ((k, v) # xs) c = (case f k v c of (go, c') \<Rightarrow> if go then walk f xs c' else (False, c'))"

text \<open>A visitor that appends each key it is shown to the closure and stops at a given key.\<close>

definition collect_until :: "pointer \<Rightarrow> pointer list MappingMapFunc" where
  "collect_until stop k v c = (k \<noteq> stop, c @ [k])"

text \<open>
  The store that inserting the keys 2, 1 and 3 (values 102, 101, 103) into a fresh tree
  builds: node 2 at the root, nodes 1 and 3 as its red children.
\<close>

definition example_heap :: heap where
  "example_heap =
     [rb_null \<mapsto> s_null_node,
      2 \<mapsto> \<lparr>left = 3, right = 4, parent = rb_null, color = BLACK, key = 2, val = 102\<rparr>,
      3 \<mapsto> \<lparr>left = rb_null, right = rb_null, parent = 2, color = RED, key = 1, val = 101\<rparr>,
      4 \<mapsto> \<lparr>left = rb_null, right = rb_null, parent = 2, color = RED, key = 3, val = 103\<rparr>]"

definition example_world :: world where
  "example_world = \<lparr>heap = example_heap, node_free_list = null, brk = 5, trace = []\<rparr>"

definition example_tree :: RBTree where
  "example_tree = (rb_tree_new_full compare_nat null True True)\<lparr>root := 2\<rparr>"

text \<open>
  A comparator that looks at the last two decimal digits of a key only, so that different
  keys can be equal for the tree; the example tree with it.
\<close>

definition compare_mod100 :: "pointer \<Rightarrow> pointer \<Rightarrow> pointer \<Rightarrow> int" where
  "compare_mod100 a b d = int (a mod 100) - int (b mod 100)"

definition example_tree_mod100 :: RBTree where
  "example_tree_mod100 = (rb_tree_new_full compare_mod100 null True True)\<lparr>root := 2\<rparr>"

text \<open>
  Two states that the public functions reach from a fresh tree. In the first, ten keys
  were inserted, with both release callbacks set. In the second, eight keys were
  inserted and the key 18 was removed again.
\<close>

definition shadowed_key_state :: "(RBTree \<times> world) option" where
  "shadowed_key_state =
     run 30 [Insert 13 113, Insert 15 115, Insert 11 111, Insert 9 109, Insert 1 101,
             Insert 3 103, Insert 7 107, Insert 5 105, Insert 19 119, Insert 17 117]
       (rb_tree_new_full compare_nat null True True, world0)"

definition dangling_node_state :: "(RBTree \<times> world) option" where
  "dangling_node_state =
     run 30 [Insert 18 118, Insert 3 103, Insert 13 113, Insert 12 112, Insert 9 109,
             Insert 4 104, Insert 2 102, Insert 5 105, Remove 18]
       (rb_tree_new_full compare_nat null False False, world0)"

section \<open>Properties\<close>

subsection \<open>The example store\<close>

text \<open>
  The example tree and world are what the code builds: after the three inserts the root,
  the nodes at the addresses 0 to 5, the free list, the allocation mark and the trace are
  those of \<open>example_tree\<close> and \<open>example_world\<close>.
\<close>

lemma example_world_built:
  "map_option (\<lambda>(t, w). (root t, map (heap w) [0, 1, 2, 3, 4, 5], node_free_list w, brk w, trace w))
     (run 20 [Insert 2 102, Insert 1 101, Insert 3 103]
        (rb_tree_new_full compare_nat null True True, world0))
   = Some (root example_tree, map (heap example_world) [0, 1, 2, 3, 4, 5],
           node_free_list example_world, brk example_world, trace example_world)"
  by code_simp

subsection \<open>A fresh tree\<close>

text \<open>
  C10. A tree made by \<open>rb_tree_new\<close>, \<open>rb_tree_new_with_data\<close> or \<open>rb_tree_new_full\<close> is
  empty: its root is the sentinel, size and height are 0, the lookup of any key answers
  null and leaves tree and world as they are, and a map hands back the closure untouched,
  whatever the visitor is (the visitor is never called). The first two constructors are
  the third with the missing arguments null.
\<close>

theorem new_tree_is_empty:
  "rb_tree_new cmp2 = rb_tree_new_full (\<lambda>a b d. cmp2 a b) null False False
   \<and> rb_tree_new_with_data cmp d = rb_tree_new_full cmp d False False
   \<and> root (rb_tree_new_full cmp d kr vr) = rb_null
   \<and> rb_tree_size n (rb_tree_new_full cmp d kr vr) w = Some 0
   \<and> rb_tree_height n (rb_tree_new_full cmp d kr vr) w = Some 0
   \<and> rb_tree_lookup (Suc n) (rb_tree_new_full cmp d kr vr) w k
       = Some (rb_tree_new_full cmp d kr vr, w, null)
   \<and> rb_tree_map n (rb_tree_new_full cmp d kr vr) w func closure = Some closure"
  by (simp add: rb_tree_new_def rb_tree_new_with_data_def rb_tree_new_full_def
      rb_tree_size_def rb_tree_height_def rb_tree_lookup_def rb_tree_find_def rb_tree_map_def)

subsection \<open>Runs of the code that break the red-black tree\<close>

text \<open>
  C1. The claim: after every successful insert, replace, remove or steal the five
  red-black invariants hold, among them that the sentinel is black. The code at a
  concrete run: six inserts build a tree whose root 20 has the red left child 10 (with
  black children 5 and 15) and the black right child 30; removing 30 rebalances through
  \<open>rb_tree_rotate_right\<close> at the root, which makes the left child of node 20 its own
  right child (the sentinel) instead of node 15, so the sibling that the rebalancing
  then colours red is the sentinel. The run returns, and the sentinel is red.
\<close>

theorem remove_colours_sentinel_red:
  "map_option (\<lambda>(t, w). rd (heap w) rb_null color)
     (run 20 [Insert 20 120, Insert 10 110, Insert 30 130, Insert 5 105, Insert 15 115,
              Insert 1 101, Remove 30]
        (rb_tree_new_full compare_nat null False False, world0))
   = Some (Some RED)"
  by code_simp

text \<open>
  C2. The claim: after any sequence of mutations, a lookup answers the value stored last
  for the key, or null when the key was removed. The code at two runs. After inserting
  2, 1 and 3 and removing 2, the lookup of 3 answers 102, the value that was stored for
  the removed key 2, and not 103: the removal copies the key of the successor onto the
  target node and leaves the value of the target where it is. After the run of C1, the
  lookup of 15, which was inserted and never removed, answers null: the right rotation
  dropped node 15 from the tree.
\<close>

theorem lookup_after_remove_wrong_value:
  "(case run 20 [Insert 2 102, Insert 1 101, Insert 3 103, Remove 2]
           (rb_tree_new_full compare_nat null False False, world0) of
      None \<Rightarrow> None
    | Some (t, w) \<Rightarrow> map_option (\<lambda>(t, w, v). v) (rb_tree_lookup 20 t w 3)) = Some 102
   \<and> (case run 20 [Insert 20 120, Insert 10 110, Insert 30 130, Insert 5 105, Insert 15 115,
                   Insert 1 101, Remove 30]
             (rb_tree_new_full compare_nat null False False, world0) of
        None \<Rightarrow> None
      | Some (t, w) \<Rightarrow> map_option (\<lambda>(t, w, v). v) (rb_tree_lookup 20 t w 15)) = Some null"
  by code_simp

text \<open>
  C3. The claim: remove calls each release callback once, with the key and the value of
  the pair that is removed. The code, with both callbacks set, on the removal of key 2
  (value 102) from the tree of 2, 1 and 3: the callbacks are called with key 3 and value
  103, the payload of the successor node, and key 3 stays in the tree.
\<close>

theorem remove_releases_successor_payload:
  "map_option (\<lambda>(t, w). (trace w, rd (heap w) (root t) key))
     (run 20 [Insert 2 102, Insert 1 101, Insert 3 103, Remove 2]
        (rb_tree_new_full compare_nat null True True, world0))
   = Some ([KeyRelease 3, ValueRelease 103], Some 3)"
  by code_simp

text \<open>
  C4. The claim: when the target has two children, key and value of the successor are
  both copied onto the target before the successor is spliced out. The code on the same
  removal, seen from the store: the target node at address 2 holds the key 3 of the
  successor and still its own value 102, and the node that went to the free list is the
  successor at address 4, with the value 103 in it.
\<close>

theorem remove_copies_key_only:
  "map_option (\<lambda>(t, w). (rd (heap w) 2 key, rd (heap w) 2 val, node_free_list w,
                             rd (heap w) 4 val))
     (run 20 [Insert 2 102, Insert 1 101, Insert 3 103, Steal 2]
        (rb_tree_new_full compare_nat null False False, world0))
   = Some (Some 3, Some 102, 4, Some 103)"
  by code_simp

text \<open>
  C6. The claim: for a present key \<open>rb_tree_lookup_extended\<close> writes the stored value
  through the value out-parameter. The code tests \<open>orig_key\<close> a second time where the
  value is written. With a null \<open>orig_key\<close> and a value cell that holds 7, the lookup of
  the present key 2 answers true and the cell still holds 7, not 102; with an
  \<open>orig_key\<close> cell and a null value pointer the call writes through the null pointer.
\<close>

theorem lookup_extended_value_not_written:
  "map_option (\<lambda>(t, w, r). r) (rb_tree_lookup_extended 20 example_tree example_world 2 None (Some 7))
     = Some (True, None, Some 7)
   \<and> rb_tree_lookup_extended 20 example_tree example_world 2 (Some 7) None = None"
  by code_simp

text \<open>
  C7. The claim: teardown calls \<open>value_release\<close> with the value of each node. The code
  passes the key of the node to both callbacks. On a tree that holds the one pair
  (2, 102) the calls are \<open>key_release 2\<close> and \<open>value_release 2\<close>; 102 is never released.
\<close>

theorem release_passes_key_to_value_release:
  "(case run 20 [Insert 2 102] (rb_tree_new_full compare_nat null True True, world0) of
      None \<Rightarrow> None
    | Some (t, w) \<Rightarrow> map_option trace (rb_tree_release 20 t w))
   = Some [KeyRelease 2, ValueRelease 2]"
  by code_simp

text \<open>
  C5. The claim: on every tree, insert and replace of a key that is already present
  release a key and the old value and leave the size as it is. The code on the tree
  that ten inserts build, with both callbacks set: the right rotation in the rebalancing
  after the insert of 5 makes the node of key 15 the left and the right child of the
  node of key 13 (and drops key 11), and the rebalancing after the insert of 17 puts the
  node of key 17 in the place of the left one only. The key 17 is stored (the map visits
  it, the size 10 counts it), but the descent for 17 turns right at 13 and right at 15
  and ends on the sentinel. Insert and replace of (17, 999) then call no release
  callback and attach a new node under the node of key 15, which is reached on two
  paths; the size is 12 afterwards.
\<close>

theorem insert_of_stored_key_adds_nodes:
  "(case shadowed_key_state of
      None \<Rightarrow> None
    | Some (t, w) \<Rightarrow>
        Some (rb_tree_size 30 t w, rb_tree_map 30 t w (collect_until null) [], trace w,
              map_option (\<lambda>(t', w'). (trace w', rb_tree_size 30 t' w')) (rb_tree_insert 30 t w 17 999),
              map_option (\<lambda>(t', w'). (trace w', rb_tree_size 30 t' w')) (rb_tree_replace 30 t w 17 999)))
   = Some (Some 10, Some [1, 3, 5, 7, 9, 15, 17, 19, 13, 15], [],
           Some ([], Some 12), Some ([], Some 12))"
  by code_simp

text \<open>
  C8. The claim: map calls the visitor on the keys in strictly ascending comparator
  order. The code after the inserts of 1, 2, 3, 7, 8, 4, 5, 6 into a fresh tree: the
  rebalancing of the last insert rotates right at the node of key 7, which gives that
  node its right child (key 8) as left child too and drops the nodes of the keys 5 and
  6; the map visits 1, 2, 3, 4, 8, 7, 8.
\<close>

theorem map_after_inserts_not_ascending:
  "(case run 30 [Insert 1 101, Insert 2 102, Insert 3 103, Insert 7 107, Insert 8 108,
                Insert 4 104, Insert 5 105, Insert 6 106]
           (rb_tree_new_full compare_nat null False False, world0) of
      None \<Rightarrow> None
    | Some (t, w) \<Rightarrow> rb_tree_map 30 t w (collect_until null) [])
   = Some [1, 2, 3, 4, 8, 7, 8]"
  by code_simp

text \<open>
  A descent that steps onto an address that holds no node has no result, whatever the
  fuel.
\<close>

lemma find_descend_fault:
  "iter \<noteq> rb_null \<Longrightarrow> rd h iter key = None \<Longrightarrow> find_descend n t h k p iter False = None"
  by (cases n) simp_all

lemma find_descend_right_fault:
  assumes "iter \<noteq> rb_null" and "rd h iter key = Some ik"
    and "0 < key_compare t k ik (key_compare_data t)"
    and "rd h iter right = Some r"
    and "\<And>m. find_descend m t h k iter r False = None"
  shows "find_descend n t h k p iter False = None"
  using assms by (cases n) simp_all

lemma find_descend_left_fault:
  assumes "iter \<noteq> rb_null" and "rd h iter key = Some ik"
    and "key_compare t k ik (key_compare_data t) < 0"
    and "rd h iter left = Some l"
    and "\<And>m. find_descend m t h k iter l False = None"
  shows "find_descend n t h k p iter False = None"
  using assms by (cases n) simp_all

text \<open>
  C9. The claim: remove and steal of an absent key are no-ops, and the queries leave the
  tree as it is. The code on the tree that eight inserts and the removal of 18 leave:
  the right rotation in the rebalancing after the insert of 5 makes the node of key 18
  the left and the right child of the node of key 13 (and drops key 12); the removal of
  18 unlinks that node on the left only and puts it on the free list, where its left
  pointer becomes the null link of the list. The descent for the key 17, which was never
  inserted, goes right at 9, right at 13, reaches the freed node, goes left and reads
  through the null pointer. Remove, steal, lookup and extended lookup of 17 have no
  result for any fuel: the calls do not return.
\<close>

theorem remove_of_absent_key_faults:
  "(case dangling_node_state of
      None \<Rightarrow> False
    | Some (t, w) \<Rightarrow>
        (\<forall>n. rb_tree_remove n t w 17 = None \<and> rb_tree_steal n t w 17 = None
             \<and> rb_tree_lookup n t w 17 = None
             \<and> rb_tree_lookup_extended n t w 17 (Some 0) (Some 0) = None))"
proof -
  have "map_option
          (\<lambda>(t, w). (root t, rd (heap w) 6 key, rd (heap w) 6 right, rd (heap w) 4 key,
                      rd (heap w) 4 right, rd (heap w) 2 key, rd (heap w) 2 left,
                      rd (heap w) 0 key,
                      0 < key_compare t 17 9 (key_compare_data t),
                      0 < key_compare t 17 13 (key_compare_data t),
                      key_compare t 17 18 (key_compare_data t) < 0))
          dangling_node_state
        = Some (6, Some 9, Some 4, Some 13, Some 2, Some 18, Some 0, None, True, True, True)"
    by code_simp
  then obtain t w where s: "dangling_node_state = Some (t, w)"
    and r: "root t = 6"
    and n6: "rd (heap w) 6 key = Some 9" "rd (heap w) 6 right = Some 4"
    and n4: "rd (heap w) 4 key = Some 13" "rd (heap w) 4 right = Some 2"
    and n2: "rd (heap w) 2 key = Some 18" "rd (heap w) 2 left = Some 0"
    and n0: "rd (heap w) 0 key = None"
    and c: "0 < key_compare t 17 9 (key_compare_data t)"
      "0 < key_compare t 17 13 (key_compare_data t)"
      "key_compare t 17 18 (key_compare_data t) < 0"
    by (cases dangling_node_state) auto
  have d0: "find_descend m t (heap w) 17 2 0 False = None" for m
    by (rule find_descend_fault) (simp_all add: rb_null_def n0)
  have d2: "find_descend m t (heap w) 17 4 2 False = None" for m
    by (rule find_descend_left_fault[OF _ n2(1) c(3) n2(2) d0]) (simp add: rb_null_def)
  have d4: "find_descend m t (heap w) 17 6 4 False = None" for m
    by (rule find_descend_right_fault[OF _ n4(1) c(2) n4(2) d2]) (simp add: rb_null_def)
  have d6: "find_descend m t (heap w) 17 rb_null (root t) False = None" for m
    unfolding r by (rule find_descend_right_fault[OF _ n6(1) c(1) n6(2) d4]) (simp add: rb_null_def)
  have f: "rb_tree_find m t w 17 null False False = None" for m
    by (simp add: rb_tree_find_def d6)
  show ?thesis
    by (simp add: s rb_tree_remove_def rb_tree_steal_def rb_tree_lookup_def
        rb_tree_lookup_extended_def f)
qed

section \<open>The code on stores that the rotations have left intact\<close>

subsection \<open>Insert and replace when the descent finds the key\<close>

lemma find_descend_found_already:
  "find_descend n t h k p a True = Some r \<Longrightarrow> r = (p, a, True)"
  by (cases n) auto

lemma find_descend_found:
  "find_descend n t h k p a False = Some (p', z, True)
     \<Longrightarrow> \<exists>nd. h z = Some nd \<and> key_compare t k (key nd) (key_compare_data t) = 0"
proof (induction n arbitrary: p a)
  case 0
  then show ?case by simp
next
  case (Suc n)
  show ?case
  proof (cases "a = rb_null")
    case True
    with Suc.prems show ?thesis by simp
  next
    case False
    with Suc.prems obtain nd where nd: "h a = Some nd"
      by (auto simp: rd_def split: bind_splits)
    let ?c = "key_compare t k (key nd) (key_compare_data t)"
    consider "?c < 0" | "?c = 0" | "?c > 0" by linarith
    then show ?thesis
    proof cases
      case 1
      with Suc.prems False nd have "find_descend n t h k a (left nd) False = Some (p', z, True)"
        by (simp add: rd_def)
      then show ?thesis by (rule Suc.IH)
    next
      case 2
      with Suc.prems False nd have "find_descend n t h k a a True = Some (p', z, True)"
        by (simp add: rd_def)
      then have "z = a" by (auto dest: find_descend_found_already)
      with nd 2 show ?thesis by simp
    next
      case 3
      with Suc.prems False nd have "find_descend n t h k a (right nd) False = Some (p', z, True)"
        by (simp add: rd_def)
      then show ?thesis by (rule Suc.IH)
    qed
  qed
qed

lemma node_count_shape:
  assumes "\<And>b. map_option left (h' b) = map_option left (h b)"
    and "\<And>b. map_option right (h' b) = map_option right (h b)"
  shows "rb_tree_node_count m h' a = rb_tree_node_count m h a"
proof (induction m arbitrary: a)
  case 0
  show ?case by simp
next
  case (Suc m)
  show ?case by (simp add: rd_def assms Suc.IH cong: if_cong)
qed

lemma size_shape:
  assumes "\<And>b. map_option left (heap w' b) = map_option left (heap w b)"
    and "\<And>b. map_option right (heap w' b) = map_option right (heap w b)"
  shows "rb_tree_size m t w' = rb_tree_size m t w"
  unfolding rb_tree_size_def using node_count_shape[of "heap w'" "heap w", OF assms] by simp

text \<open>
  When the descent of \<open>rb_tree_find\<close> from the root ends on a node \<open>z\<close> with the found
  flag set, that node exists and the comparator answers zero on the key and the key of
  the node. Insert then calls \<open>key_release\<close> on the incoming key and \<open>value_release\<close> on
  the old value (each when it is set), writes the new value into the node and leaves the
  key of the node; replace calls \<open>key_release\<close> on the old key and \<open>value_release\<close> on
  the old value and writes the new key and the new value into the node. Nothing else in
  the world changes, the tree handle is the same, and the size of the tree after either
  call is the size before it, for every fuel.
\<close>

lemma insert_replace_when_descent_finds:
  assumes "find_descend n t (heap w) k rb_null (root t) False = Some (p, z, True)"
  shows "\<exists>nd. heap w z = Some nd \<and> key_compare t k (key nd) (key_compare_data t) = 0
     \<and> rb_tree_insert n t w k v
         = Some (t, w\<lparr>heap := (heap w)(z \<mapsto> nd\<lparr>val := v\<rparr>),
                      trace := trace w @ (if key_release t then [KeyRelease k] else [])
                                 @ (if value_release t then [ValueRelease (val nd)] else [])\<rparr>)
     \<and> rb_tree_replace n t w k v
         = Some (t, w\<lparr>heap := (heap w)(z \<mapsto> nd\<lparr>key := k, val := v\<rparr>),
                      trace := trace w @ (if key_release t then [KeyRelease (key nd)] else [])
                                 @ (if value_release t then [ValueRelease (val nd)] else [])\<rparr>)
     \<and> (\<forall>m t' w'. rb_tree_insert n t w k v = Some (t', w') \<or> rb_tree_replace n t w k v = Some (t', w')
           \<longrightarrow> rb_tree_size m t' w' = rb_tree_size m t w)"
proof -
  from find_descend_found[OF assms] obtain nd where nd: "heap w z = Some nd"
    and eq: "key_compare t k (key nd) (key_compare_data t) = 0" by blast
  let ?wi = "w\<lparr>heap := (heap w)(z \<mapsto> nd\<lparr>val := v\<rparr>),
                trace := trace w @ (if key_release t then [KeyRelease k] else [])
                           @ (if value_release t then [ValueRelease (val nd)] else [])\<rparr>"
  let ?wr = "w\<lparr>heap := (heap w)(z \<mapsto> nd\<lparr>key := k, val := v\<rparr>),
                trace := trace w @ (if key_release t then [KeyRelease (key nd)] else [])
                           @ (if value_release t then [ValueRelease (val nd)] else [])\<rparr>"
  have i: "rb_tree_insert n t w k v = Some (t, ?wi)"
    by (simp add: rb_tree_insert_def rb_tree_find_def assms call_release_def rd_def wr_def nd)
  have r: "rb_tree_replace n t w k v = Some (t, ?wr)"
    by (simp add: rb_tree_replace_def rb_tree_find_def assms call_release_def rd_def wr_def nd)
  have si: "rb_tree_size m t ?wi = rb_tree_size m t w" for m
    by (rule size_shape) (simp_all add: nd)
  have sr: "rb_tree_size m t ?wr = rb_tree_size m t w" for m
    by (rule size_shape) (simp_all add: nd)
  show ?thesis using nd eq i r si sr by auto
qed

text \<open>
  On the example store with the comparator on the last two digits, the incoming key 203
  equals the stored key 3: insert releases 203 and keeps 3 in the node, replace releases
  3 and stores 203.
\<close>

lemma insert_replace_when_descent_finds_example:
  "find_descend 3 example_tree_mod100 (heap example_world) 203 rb_null
       (root example_tree_mod100) False
     = Some (4, 4, True)
   \<and> rb_tree_size 2 example_tree_mod100 example_world = Some 3
   \<and> map_option (\<lambda>(t, w). (trace w, rd (heap w) 4 key, rd (heap w) 4 val, rb_tree_size 2 t w))
       (rb_tree_insert 3 example_tree_mod100 example_world 203 999)
       = Some ([KeyRelease 203, ValueRelease 103], Some 3, Some 999, Some 3)
   \<and> map_option (\<lambda>(t, w). (trace w, rd (heap w) 4 key, rd (heap w) 4 val, rb_tree_size 2 t w))
       (rb_tree_replace 3 example_tree_mod100 example_world 203 999)
       = Some ([KeyRelease 3, ValueRelease 103], Some 203, Some 999, Some 3)"
proof -
  have d: "find_descend 3 example_tree_mod100 (heap example_world) 203 rb_null
             (root example_tree_mod100) False
           = Some (4, 4, True)"
    by code_simp
  have h4: "heap example_world 4
              = Some \<lparr>left = rb_null, right = rb_null, parent = 2, color = RED, key = 3, val = 103\<rparr>"
    by (simp add: example_world_def example_heap_def rb_null_def)
  have kr: "key_release example_tree_mod100" "value_release example_tree_mod100"
    by (simp_all add: example_tree_mod100_def rb_tree_new_full_def)
  have s: "rb_tree_size 2 example_tree_mod100 example_world = Some 3"
    by code_simp
  from insert_replace_when_descent_finds[OF d, of 999] d h4 kr s show ?thesis
    by (auto simp: rd_def example_world_def)
qed

subsection \<open>Map on a store that forms a tree\<close>

lemma tree_at_null_iff: "tree_at h a s \<Longrightarrow> (a = rb_null) = (s = Leaf)"
  by (cases s) auto

lemma walk_append:
  "walk f (xs @ ys) c = (case walk f xs c of (go, c') \<Rightarrow> if go then walk f ys c' else (False, c'))"
  by (induction xs arbitrary: c) (auto split: prod.splits)

lemma node_map_walk:
  "tree_at h a s \<Longrightarrow> s \<noteq> Leaf \<Longrightarrow> height s \<le> n
     \<Longrightarrow> rb_tree_node_map n h a f c = Some (walk f (inorder s) c)"
proof (induction s arbitrary: a n c)
  case Leaf
  then show ?case by simp
next
  case (Node l kv r)
  from Node.prems obtain m where n: "n = Suc m" by (cases n) auto
  from Node.prems obtain nd where nd: "h a = Some nd" "kv = (key nd, val nd)"
    "tree_at h (left nd) l" "tree_at h (right nd) r"
    by (auto split: option.splits)
  have hl: "height l \<le> m" and hr: "height r \<le> m" using Node.prems n by auto
  have L: "(if left nd \<noteq> rb_null then rb_tree_node_map m h (left nd) f c else Some (True, c))
           = Some (walk f (inorder l) c)"
    using Node.IH(1)[OF nd(3) _ hl] tree_at_null_iff[OF nd(3)] by (cases "l = Leaf") auto
  have R: "\<And>c'. (if right nd \<noteq> rb_null then rb_tree_node_map m h (right nd) f c' else Some (True, c'))
           = Some (walk f (inorder r) c')"
    using Node.IH(2)[OF nd(4) _ hr] tree_at_null_iff[OF nd(4)] by (cases "r = Leaf") auto
  show ?case
    unfolding n rb_tree_node_map.simps
    by (simp add: rd_def nd L R walk_append split: prod.splits)
qed

text \<open>
  When the nodes under the root form a binary tree \<open>s\<close> and the fuel covers its height,
  \<open>rb_tree_map\<close> returns, and the closure it leaves is the one of the walk over the
  in-order list of \<open>s\<close>: the visitor is called on (key, value) of the nodes of the left
  subtree, then of the node, then of the right subtree, and no more once it has answered
  stop. If the visitor answers stop on a pair, the closure that call returns is the
  result, whatever follows in the tree.
\<close>

lemma map_walks_tree_shape:
  assumes "tree_at (heap w) (root t) s" and "height s \<le> n"
  shows "rb_tree_map n t w func closure = Some (snd (walk func (inorder s) closure))
       \<and> (\<forall>xs k v ys c. inorder s = xs @ (k, v) # ys \<and> walk func xs closure = (True, c)
              \<and> \<not> fst (func k v c)
            \<longrightarrow> rb_tree_map n t w func closure = Some (snd (func k v c)))"
proof -
  have m: "rb_tree_map n t w func closure = Some (snd (walk func (inorder s) closure))"
  proof (cases "s = Leaf")
    case True
    with assms(1) show ?thesis by (simp add: rb_tree_map_def)
  next
    case False
    with assms(1) have "root t \<noteq> rb_null" using tree_at_null_iff by blast
    with node_map_walk[OF assms(1) False assms(2), where f = func and c = closure] show ?thesis
      by (simp add: rb_tree_map_def)
  qed
  have stop: "walk func (xs @ (k, v) # ys) closure = (False, snd (func k v c))"
    if "walk func xs closure = (True, c)" "\<not> fst (func k v c)" for xs k v ys c
  proof -
    obtain g c' where "func k v c = (g, c')" by (cases "func k v c")
    with that show ?thesis by (simp add: walk_append)
  qed
  show ?thesis
    using m stop by auto
qed

lemma map_walks_tree_shape_example:
  "tree_at (heap example_world) (root example_tree)
     \<langle>\<langle>\<langle>\<rangle>, (1, 101), \<langle>\<rangle>\<rangle>, (2, 102), \<langle>\<langle>\<rangle>, (3, 103), \<langle>\<rangle>\<rangle>\<rangle>
   \<and> rb_tree_map 2 example_tree example_world (collect_until 9) [] = Some [1, 2, 3]
   \<and> rb_tree_map 2 example_tree example_world (collect_until 2) [] = Some [1, 2]"
proof -
  let ?s = "\<langle>\<langle>\<langle>\<rangle>, (1, 101), \<langle>\<rangle>\<rangle>, (2, 102), \<langle>\<langle>\<rangle>, (3, 103), \<langle>\<rangle>\<rangle>\<rangle> :: (pointer \<times> pointer) tree"
  have a: "tree_at (heap example_world) (root example_tree) ?s"
    by (simp add: example_world_def example_tree_def example_heap_def rb_tree_new_full_def
        rb_null_def)
  have b: "height ?s \<le> 2" by simp
  show ?thesis
    using a map_walks_tree_shape[OF a b, of "collect_until 9" "[]"]
      map_walks_tree_shape[OF a b, of "collect_until 2" "[]"]
    by (simp add: collect_until_def)
qed

subsection \<open>Calls that return from a lookup-only find\<close>

lemma find_lookup_only:
  "rb_tree_find n t w k v False False = Some (t', w', a) \<Longrightarrow> t' = t \<and> w' = w"
  by (auto simp: rb_tree_find_def split: bind_splits)

text \<open>
  Whenever \<open>rb_tree_lookup\<close> or \<open>rb_tree_lookup_extended\<close> returns, the tree handle and
  the world (store, free list, trace of callback calls) are the ones it was called with;
  so is it for the lookup-only \<open>rb_tree_find\<close> that remove and steal start with, and when
  that returns the sentinel \<open>rb_tree_remove\<close> and \<open>rb_tree_steal\<close> return tree and world
  unchanged, with no callback called.
\<close>

lemma lookup_only_find_frame:
  "(rb_tree_lookup n t w k = Some (t', w', v) \<longrightarrow> t' = t \<and> w' = w)
   \<and> (rb_tree_lookup_extended n t w k orig_key value_out = Some (t'', w'', r)
        \<longrightarrow> t'' = t \<and> w'' = w)
   \<and> (rb_tree_find n t w k null False False = Some (t1, w1, a)
        \<longrightarrow> t1 = t \<and> w1 = w
            \<and> (a = rb_null
                 \<longrightarrow> rb_tree_remove n t w k = Some (t, w) \<and> rb_tree_steal n t w k = Some (t, w)))"
proof (intro conjI impI)
  assume "rb_tree_lookup n t w k = Some (t', w', v)"
  then show "t' = t" "w' = w"
    by (auto simp: rb_tree_lookup_def split: bind_splits if_splits dest: find_lookup_only)
next
  assume "rb_tree_lookup_extended n t w k orig_key value_out = Some (t'', w'', r)"
  then show "t'' = t" "w'' = w"
    by (auto simp: rb_tree_lookup_extended_def split: bind_splits if_splits dest: find_lookup_only)
next
  assume f: "rb_tree_find n t w k null False False = Some (t1, w1, a)"
  from find_lookup_only[OF f] show "t1 = t" "w1 = w" by simp_all
  assume "a = rb_null"
  with f find_lookup_only[OF f] show "rb_tree_remove n t w k = Some (t, w)"
    "rb_tree_steal n t w k = Some (t, w)"
    by (simp_all add: rb_tree_remove_def rb_tree_steal_def)
qed

lemma lookup_only_find_frame_example:
  "rb_tree_lookup 3 example_tree example_world 3 = Some (example_tree, example_world, 103)
   \<and> rb_tree_lookup_extended 3 example_tree example_world 3 (Some 0) (Some 0)
       = Some (example_tree, example_world, True, Some 3, Some 103)
   \<and> rb_tree_find 3 example_tree example_world 7 null False False
       = Some (example_tree, example_world, rb_null)
   \<and> rb_tree_remove 3 example_tree example_world 7 = Some (example_tree, example_world)
   \<and> rb_tree_steal 3 example_tree example_world 7 = Some (example_tree, example_world)"
proof -
  have "map_option (\<lambda>(t, w, v). v) (rb_tree_lookup 3 example_tree example_world 3) = Some 103"
    by code_simp
  then obtain ta wa where a: "rb_tree_lookup 3 example_tree example_world 3 = Some (ta, wa, 103)"
    by auto
  have "map_option (\<lambda>(t, w, r). r)
          (rb_tree_lookup_extended 3 example_tree example_world 3 (Some 0) (Some 0))
        = Some (True, Some 3, Some 103)"
    by code_simp
  then obtain tb wb where b: "rb_tree_lookup_extended 3 example_tree example_world 3 (Some 0) (Some 0)
        = Some (tb, wb, True, Some 3, Some 103)"
    by auto
  have "map_option (\<lambda>(t, w, a). a) (rb_tree_find 3 example_tree example_world 7 null False False)
        = Some rb_null"
    by code_simp
  then obtain tc wc where c: "rb_tree_find 3 example_tree example_world 7 null False False
        = Some (tc, wc, rb_null)"
    by auto
  from a b c
    lookup_only_find_frame[where n = 3 and t = example_tree
      and w = example_world and k = 3 and t' = ta and w' = wa and v = 103
      and orig_key = "Some 0" and value_out = "Some 0" and t'' = tb and w'' = wb
      and r = "(True, Some 3, Some 103)"]
    lookup_only_find_frame[where n = 3 and t = example_tree
      and w = example_world and k = 7 and ?t1.0 = tc and ?w1.0 = wc and a = rb_null]
  show ?thesis by simp
qed

end
